theory Spec2Isabelle
  imports Complex_Main
begin

section \<open>Data model\<close>

text \<open>
  The editor's classes are plain records.  Coordinates and times are Python numbers;
  they are modelled as exact reals (every constant of the scenarios below is a dyadic
  rational that binary floating point represents exactly).  Identifiers are Python's
  unbounded integers.  The field names carry a prefix because \<open>x\<close>, \<open>y\<close> and
  \<open>time\<close> would otherwise become global constants.
\<close>

record TrajectoryPoint =
  tp_x :: real
  tp_y :: real
  tp_time :: real
  tp_pause_duration :: real

text \<open>Exceptions that the modelled Python code could raise.\<close>

datatype py_error = IndexError | KeyError | ZeroDivisionError | AttributeError | IOError

text \<open>
  Outcome of one pass through the body of a \<^verbatim>\<open>for\<close> loop: the body raises (the
  variables it has mutated so far stay mutated), executes a \<^verbatim>\<open>return\<close>, or falls through
  to the next iteration with the loop-carried variables.
\<close>

datatype ('r, 's) flow = Raise py_error 's | Return 'r | Continue 's

fun for_each :: "('a \<Rightarrow> 's \<Rightarrow> ('r, 's) flow) \<Rightarrow> 'a list \<Rightarrow> 's \<Rightarrow> ('r, 's) flow" where
  "for_each body [] s = Continue s"
| "for_each body (i # rest) s =
     (case body i s of
        Raise e s' \<Rightarrow> Raise e s'
      | Return r \<Rightarrow> Return r
      | Continue s' \<Rightarrow> for_each body rest s')"

text \<open>\<^verbatim>\<open>xs[i]\<close> for a non-negative index, \<^verbatim>\<open>xs[-1]\<close>, and true division.\<close>

definition getitem :: "'a list \<Rightarrow> nat \<Rightarrow> py_error + 'a" where
  "getitem xs i = (if i < length xs then Inr (xs ! i) else Inl IndexError)"

definition getitem_last :: "'a list \<Rightarrow> py_error + 'a" where
  "getitem_last xs = (if xs = [] then Inl IndexError else Inr (last xs))"

definition py_truediv :: "real \<Rightarrow> real \<Rightarrow> py_error + real" where
  "py_truediv a b = (if b = 0 then Inl ZeroDivisionError else Inr (a / b))"

text \<open>\<^verbatim>\<open>int(r)\<close> truncates towards zero.\<close>

definition py_int :: "real \<Rightarrow> int" where
  "py_int r = (if 0 \<le> r then \<lfloor>r\<rfloor> else \<lceil>r\<rceil>)"

section \<open>Trajectory interpolation\<close>

definition pos_of :: "TrajectoryPoint \<Rightarrow> real \<times> real" where
  "pos_of p = (tp_x p, tp_y p)"

definition point_result :: "py_error + TrajectoryPoint \<Rightarrow> py_error + real \<times> real" where
  "point_result r = (case r of Inl e \<Rightarrow> Inl e | Inr p \<Rightarrow> Inr (pos_of p))"

text \<open>
  The block that both branches of \<^verbatim>\<open>Vehicle.get_position_at_time\<close> in
  \<^verbatim>\<open>vehicle_editor_fixed.py\<close> end with: a zero-length travel segment returns the
  departure point, otherwise the position is interpolated linearly.
\<close>

definition travel_return ::
  "TrajectoryPoint \<Rightarrow> TrajectoryPoint \<Rightarrow> real \<Rightarrow> real \<Rightarrow> (real \<times> real, unit) flow" where
  "travel_return point next_point t departure_time =
     (if tp_time next_point - departure_time = 0 then Return (pos_of point)
      else
        (case py_truediv (t - departure_time) (tp_time next_point - departure_time) of
           Inl e \<Rightarrow> Raise e ()
         | Inr ratio \<Rightarrow>
             Return (tp_x point + (tp_x next_point - tp_x point) * ratio,
                     tp_y point + (tp_y next_point - tp_y point) * ratio)))"

text \<open>Loop body of \<^verbatim>\<open>get_position_at_time\<close>, \<^verbatim>\<open>vehicle_editor_fixed.py\<close> lines 68-102.\<close>

definition position_body ::
  "TrajectoryPoint list \<Rightarrow> real \<Rightarrow> nat \<Rightarrow> unit \<Rightarrow> (real \<times> real, unit) flow" where
  "position_body trajectory t i u =
     (case getitem trajectory i of
        Inl e \<Rightarrow> Raise e u
      | Inr point \<Rightarrow>
          if i > 0 then
            (let arrival_time = tp_time point;
                 departure_time = arrival_time + tp_pause_duration point
             in if arrival_time \<le> t \<and> t \<le> departure_time then Return (pos_of point)
                else if int i < int (length trajectory) - 1 then
                  (case getitem trajectory (i + 1) of
                     Inl e \<Rightarrow> Raise e u
                   | Inr next_point \<Rightarrow>
                       if departure_time \<le> t \<and> t \<le> tp_time next_point
                       then travel_return point next_point t departure_time
                       else Continue ())
                else Continue ())
          else
            (if t \<le> tp_time point + tp_pause_duration point then Return (pos_of point)
             else if length trajectory > 1 then
               (case getitem trajectory 1 of
                  Inl e \<Rightarrow> Raise e u
                | Inr next_point \<Rightarrow>
                    if t \<le> tp_time next_point
                    then travel_return point next_point t
                           (tp_time point + tp_pause_duration point)
                    else Continue ())
             else Continue ()))"

text \<open>\<^verbatim>\<open>Vehicle.get_position_at_time\<close> of \<^verbatim>\<open>vehicle_editor_fixed.py\<close>.\<close>

definition get_position_at_time :: "TrajectoryPoint list \<Rightarrow> real \<Rightarrow> py_error + real \<times> real" where
  "get_position_at_time trajectory t =
     (if trajectory = [] then Inr (100, 100)
      else if length trajectory = 1 then point_result (getitem trajectory 0)
      else if t \<le> 0 then point_result (getitem trajectory 0)
      else
        (case for_each (position_body trajectory t) [0..<length trajectory] () of
           Raise e s \<Rightarrow> Inl e
         | Return r \<Rightarrow> Inr r
         | Continue s \<Rightarrow> point_result (getitem_last trajectory)))"

text \<open>
  Loop body of \<^verbatim>\<open>get_position_at_time\<close> in \<^verbatim>\<open>vehicle_editor_v3.py\<close> (lines 71-94);
  the loop carries \<^verbatim>\<open>accumulated_time\<close>.
\<close>

definition v3_position_body ::
  "TrajectoryPoint list \<Rightarrow> real \<Rightarrow> nat \<Rightarrow> real \<Rightarrow> (real \<times> real, real) flow" where
  "v3_position_body trajectory t i accumulated_time =
     (case getitem trajectory i of
        Inl e \<Rightarrow> Raise e accumulated_time
      | Inr point \<Rightarrow>
          if int i < int (length trajectory) - 1 then
            (case getitem trajectory (i + 1) of
               Inl e \<Rightarrow> Raise e accumulated_time
             | Inr next_point \<Rightarrow>
                 (let move_time = tp_time next_point - tp_time point
                  in if accumulated_time \<le> t \<and> t < accumulated_time + move_time then
                       (if move_time > 0 then
                          (case py_truediv (t - accumulated_time) move_time of
                             Inl e \<Rightarrow> Raise e accumulated_time
                           | Inr ratio \<Rightarrow>
                               Return (tp_x point + (tp_x next_point - tp_x point) * ratio,
                                       tp_y point + (tp_y next_point - tp_y point) * ratio))
                        else Return (pos_of point))
                     else
                       (let accumulated_time1 = accumulated_time + move_time
                        in if accumulated_time1 \<le> t
                              \<and> t < accumulated_time1 + tp_pause_duration point
                           then Return (pos_of point)
                           else Continue (accumulated_time1 + tp_pause_duration point))))
          else Continue accumulated_time)"

definition v3_get_position_at_time ::
  "TrajectoryPoint list \<Rightarrow> real \<Rightarrow> py_error + real \<times> real" where
  "v3_get_position_at_time trajectory t =
     (if length trajectory = 0 then Inr (100, 100)
      else if length trajectory = 1 then point_result (getitem trajectory 0)
      else if t \<le> 0 then point_result (getitem trajectory 0)
      else
        (case for_each (v3_position_body trajectory t) [0..<length trajectory] 0 of
           Raise e s \<Rightarrow> Inl e
         | Return r \<Rightarrow> Inr r
         | Continue s \<Rightarrow> point_result (getitem_last trajectory)))"

text \<open>The waypoint list of the specification's scenario.\<close>

definition scenario :: "TrajectoryPoint list" where
  "scenario =
     [\<lparr>tp_x = 0, tp_y = 0, tp_time = 0, tp_pause_duration = 0\<rparr>,
      \<lparr>tp_x = 100, tp_y = 0, tp_time = 2, tp_pause_duration = 1\<rparr>,
      \<lparr>tp_x = 100, tp_y = 100, tp_time = 4, tp_pause_duration = 0\<rparr>]"

text \<open>
  A waypoint list with non-decreasing arrival times in which the first pause outlasts the
  arrival at the second waypoint.
\<close>

definition overlap_example :: "TrajectoryPoint list" where
  "overlap_example =
     [\<lparr>tp_x = 0, tp_y = 0, tp_time = 0, tp_pause_duration = 10\<rparr>,
      \<lparr>tp_x = 5, tp_y = 5, tp_time = 1, tp_pause_duration = 0\<rparr>]"

section \<open>Entities and the editor state\<close>

text \<open>
  A \<^verbatim>\<open>QPixmap\<close> is known to the editor only through its pixel size.  The constructor of
  \<^verbatim>\<open>Vehicle\<close> receives a position but does not store it, so the record has none.
\<close>

record pixmap =
  pm_width :: int
  pm_height :: int

record Vehicle =
  vehicle_id :: int
  vehicle_pixmap :: pixmap
  vehicle_name :: string
  vehicle_scale :: real
  trajectory :: "TrajectoryPoint list"

record Camera =
  camera_id :: int
  camera_pixmap :: pixmap
  camera_x :: real
  camera_y :: real
  camera_scale :: real

record TextLabel =
  label_text :: string
  label_x :: real
  label_y :: real
  font_size :: int
  color :: string

record Road =
  road_id :: int
  road_pixmap :: pixmap
  road_x :: real
  road_y :: real
  locked :: bool

text \<open>
  What the operator can observe: the lines written by \<^verbatim>\<open>update_status\<close> and the message
  boxes opened.  The texts themselves are Chinese; each constructor stands for one of them
  and carries the values formatted into it.
\<close>

datatype status_message =
    St_RoadAdded int
  | St_RoadRemoved
  | St_RoadMoved int real
  | St_RoadLockedCannotMove int
  | St_RoadSelected int
  | St_RoadLockChanged int bool
  | St_VehicleAdded string int
  | St_VehicleRemoved
  | St_VehicleSelected int string
  | St_CameraAdded int
  | St_CameraRemoved
  | St_MarginChanged int
  | St_TopMarginChanged int
  | St_ViewFitted real real
  | St_ProjectSaved string
  | St_VideoExported string

datatype dialog_message =
    Dlg_NoRoadAssets
  | Dlg_SelectRoadFirst
  | Dlg_RoadLockedCannotRemove
  | Dlg_SelectVehicleAssetFirst
  | Dlg_SelectVehicleFirst
  | Dlg_NoCameraAssets
  | Dlg_SelectCameraFirst
  | Dlg_ProjectSaved string
  | Dlg_VideoExported string

text \<open>
  The items that \<^verbatim>\<open>redraw_scene\<close> puts into the \<^verbatim>\<open>QGraphicsScene\<close>, in z-order.  Roads
  and labels are placed by their top-left corner.  Cameras and vehicles are placed so that
  the (possibly rescaled) sprite is centred on the stored point; the size of the rescaled
  sprite is computed inside Qt, so the item records the centre and the scale factor.  The
  flag of a vehicle item tells whether it is a draggable item.
\<close>

datatype scene_item =
    RoadItem int real real
  | CameraItem int real real real
  | TrajectoryLine real real real real
  | TrajectoryDot real real
  | VehicleItem int real real real bool
  | TextItem string real real int string

type_synonym rect = "real \<times> real \<times> real \<times> real"

text \<open>
  \<^verbatim>\<open>VehicleEditor\<close> of \<^verbatim>\<open>vehicle_editor_fixed.py\<close>.  A selection is a reference to an
  object of the corresponding list; it is modelled as the index of that object.
\<close>

record VehicleEditor =
  roads :: "Road list"
  vehicles :: "Vehicle list"
  cameras :: "Camera list"
  text_labels :: "TextLabel list"
  next_vehicle_id :: int
  next_camera_id :: int
  next_road_id :: int
  vehicle_pixmaps :: "(string \<times> pixmap) list"
  camera_pixmaps :: "pixmap list"
  road_pixmaps :: "pixmap list"
  left_margin :: int
  top_margin :: int
  current_time :: real
  max_time :: real
  is_playing :: bool
  show_trajectory :: bool
  selected_vehicle :: "nat option"
  selected_road :: "nat option"
  scene_items :: "scene_item list"
  scene_rect :: rect
  time_slider :: int
  status_log :: "status_message list"
  dialog_log :: "dialog_message list"

text \<open>
  Result of an operation of the editor: it completes, or an exception leaves it with the
  state reached so far.
\<close>

datatype 'a result = Done 'a | Raised py_error 'a

definition and_then :: "'a result \<Rightarrow> ('a \<Rightarrow> 'a result) \<Rightarrow> 'a result" where
  "and_then r f = (case r of Done s \<Rightarrow> f s | Raised e s \<Rightarrow> Raised e s)"

definition update_status :: "status_message \<Rightarrow> VehicleEditor \<Rightarrow> VehicleEditor" where
  "update_status message ed = ed\<lparr>status_log := status_log ed @ [message]\<rparr>"

definition message_box :: "dialog_message \<Rightarrow> VehicleEditor \<Rightarrow> VehicleEditor" where
  "message_box message ed = ed\<lparr>dialog_log := dialog_log ed @ [message]\<rparr>"

section \<open>Composing the scene\<close>

definition trajectory_overlay :: "Vehicle \<Rightarrow> scene_item list" where
  "trajectory_overlay vehicle =
     map (\<lambda>(p1, p2). TrajectoryLine (tp_x p1) (tp_y p1) (tp_x p2) (tp_y p2))
         (zip (trajectory vehicle) (tl (trajectory vehicle)))
     @ map (\<lambda>point. TrajectoryDot (tp_x point) (tp_y point)) (trajectory vehicle)"

text \<open>
  One pass through the loop over the vehicles in \<^verbatim>\<open>redraw_scene\<close> (lines 936-993); the
  loop state is the list of items added to the scene so far.
\<close>

definition draw_vehicle ::
  "VehicleEditor \<Rightarrow> Vehicle \<Rightarrow> scene_item list \<Rightarrow> (unit, scene_item list) flow" where
  "draw_vehicle ed vehicle items =
     (let items1 =
            (if show_trajectory ed \<and> \<not> is_playing ed \<and> length (trajectory vehicle) > 1
             then items @ trajectory_overlay vehicle else items)
      in if length (trajectory vehicle) \<le> 1 then
           (if length (trajectory vehicle) = 1 then
              (case getitem (trajectory vehicle) 0 of
                 Inl e \<Rightarrow> Raise e items1
               | Inr point \<Rightarrow>
                   Continue (items1 @ [VehicleItem (vehicle_id vehicle) (tp_x point) (tp_y point)
                                         (vehicle_scale vehicle) True]))
            else
              Continue (items1 @ [VehicleItem (vehicle_id vehicle)
                                    (100 + real_of_int (vehicle_id vehicle) * 50) 150
                                    (vehicle_scale vehicle) True]))
         else
           (case get_position_at_time (trajectory vehicle) (current_time ed) of
              Inl e \<Rightarrow> Raise e items1
            | Inr (x, y) \<Rightarrow>
                Continue (items1 @ [VehicleItem (vehicle_id vehicle) x y
                                      (vehicle_scale vehicle) False])))"

text \<open>The scene rectangle set at the end of \<^verbatim>\<open>redraw_scene\<close> (lines 1003-1007).\<close>

definition redraw_rect :: "Road list \<Rightarrow> rect \<Rightarrow> rect" where
  "redraw_rect rs old =
     (case rs of
        [] \<Rightarrow> old
      | r # rest \<Rightarrow>
          (let total_width =
                 fold max (map (\<lambda>r. road_x r + real_of_int (pm_width (road_pixmap r))) rest)
                      (road_x r + real_of_int (pm_width (road_pixmap r))) + 200;
               total_height =
                 fold max (map (\<lambda>r. road_y r + real_of_int (pm_height (road_pixmap r))) rest)
                      (road_y r + real_of_int (pm_height (road_pixmap r))) + 100
           in (0, 0, total_width, total_height)))"

definition redraw_scene :: "VehicleEditor \<Rightarrow> VehicleEditor result" where
  "redraw_scene ed =
     (let road_items = map (\<lambda>road. RoadItem (road_id road) (road_x road) (road_y road)) (roads ed);
          camera_items =
            map (\<lambda>camera. CameraItem (camera_id camera) (camera_x camera) (camera_y camera)
                             (camera_scale camera)) (cameras ed)
      in case for_each (draw_vehicle ed) (vehicles ed) (road_items @ camera_items) of
           Raise e items \<Rightarrow> Raised e (ed\<lparr>scene_items := items\<rparr>)
         | Return u \<Rightarrow> Done ed
         | Continue items \<Rightarrow>
             Done (ed\<lparr>scene_items :=
                         items @ map (\<lambda>label. TextItem (label_text label) (label_x label)
                                                (label_y label) (font_size label) (color label))
                                     (text_labels ed),
                       scene_rect := redraw_rect (roads ed) (scene_rect ed)\<rparr>))"

section \<open>Operations of the editor\<close>

text \<open>
  Each operation takes what the operator supplies (the row clicked in a list, the answer
  to a confirmation box, the file name chosen) as arguments.  The list widgets refreshed by
  \<^verbatim>\<open>update_road_list\<close> and its siblings mirror the entity lists and are not modelled.
\<close>

subsection \<open>Roads\<close>

definition fit_view_to_roads :: "VehicleEditor \<Rightarrow> VehicleEditor result" where
  "fit_view_to_roads ed =
     (case roads ed of
        [] \<Rightarrow> Done ed
      | r # rest \<Rightarrow>
          (let min_x = fold min (map road_x rest) (road_x r);
               min_y = fold min (map road_y rest) (road_y r);
               max_x = fold max (map (\<lambda>r. road_x r + real_of_int (pm_width (road_pixmap r))) rest)
                            (road_x r + real_of_int (pm_width (road_pixmap r)));
               max_y = fold max (map (\<lambda>r. road_y r + real_of_int (pm_height (road_pixmap r))) rest)
                            (road_y r + real_of_int (pm_height (road_pixmap r)));
               margin = 100;
               total_width = max_x - min_x + margin * 2;
               total_height = max_y - min_y + margin * 2
           in Done (update_status (St_ViewFitted total_width total_height)
                      (ed\<lparr>scene_rect := (min_x - margin, min_y - margin, total_width, total_height)\<rparr>))))"

definition add_road :: "real \<Rightarrow> real \<Rightarrow> VehicleEditor \<Rightarrow> VehicleEditor result" where
  "add_road x y ed =
     (case road_pixmaps ed of
        [] \<Rightarrow> Done (message_box Dlg_NoRoadAssets ed)
      | pm # others \<Rightarrow>
          (let rid = next_road_id ed;
               road = \<lparr>road_id = rid, road_pixmap = pm, road_x = x, road_y = y, locked = False\<rparr>
           in redraw_scene
                (update_status (St_RoadAdded rid)
                   (ed\<lparr>next_road_id := next_road_id ed + 1, roads := roads ed @ [road]\<rparr>))))"

definition add_road_interactive :: "VehicleEditor \<Rightarrow> VehicleEditor result" where
  "add_road_interactive ed =
     and_then
       (if roads ed = [] then add_road (real_of_int (left_margin ed)) (real_of_int (top_margin ed)) ed
        else
          (let last_road = last (roads ed);
               new_y = road_y last_road + real_of_int (pm_height (road_pixmap last_road))
           in add_road (real_of_int (left_margin ed)) new_y ed))
       fit_view_to_roads"

definition remove_at :: "nat \<Rightarrow> 'a list \<Rightarrow> 'a list" where
  "remove_at i xs = take i xs @ drop (Suc i) xs"

definition remove_road :: "bool \<Rightarrow> VehicleEditor \<Rightarrow> VehicleEditor result" where
  "remove_road reply_yes ed =
     (case selected_road ed of
        None \<Rightarrow> Done (message_box Dlg_SelectRoadFirst ed)
      | Some i \<Rightarrow>
          (case getitem (roads ed) i of
             Inl e \<Rightarrow> Raised e ed
           | Inr road \<Rightarrow>
               if locked road then Done (message_box Dlg_RoadLockedCannotRemove ed)
               else if reply_yes then
                 and_then
                   (redraw_scene
                      (update_status St_RoadRemoved
                         (ed\<lparr>roads := remove_at i (roads ed), selected_road := None\<rparr>)))
                   fit_view_to_roads
               else Done ed))"

definition on_road_selected :: "int \<Rightarrow> VehicleEditor \<Rightarrow> VehicleEditor result" where
  "on_road_selected idx ed =
     (if 0 \<le> idx \<and> idx < int (length (roads ed))
      then Done (update_status (St_RoadSelected (road_id (roads ed ! nat idx)))
                   (ed\<lparr>selected_road := Some (nat idx)\<rparr>))
      else Done ed)"

definition toggle_lock_road :: "bool \<Rightarrow> VehicleEditor \<Rightarrow> VehicleEditor result" where
  "toggle_lock_road checked ed =
     (case selected_road ed of
        None \<Rightarrow> Done (message_box Dlg_SelectRoadFirst ed)
      | Some i \<Rightarrow>
          (case getitem (roads ed) i of
             Inl e \<Rightarrow> Raised e ed
           | Inr road \<Rightarrow>
               Done (update_status (St_RoadLockChanged (road_id road) checked)
                       (ed\<lparr>roads := (roads ed)[i := road\<lparr>locked := checked\<rparr>]\<rparr>))))"

text \<open>
  \<^verbatim>\<open>DraggablePixmapItem.mouseReleaseEvent\<close> for an item of type \<^verbatim>\<open>"road"\<close> (lines 183-191):
  the item of road \<open>i\<close> is released at \<open>(pos_x, pos_y)\<close>.  A locked road is put back by
  \<^verbatim>\<open>setPos\<close>; an unlocked one takes the new position.
\<close>

definition road_mouse_release :: "nat \<Rightarrow> real \<Rightarrow> real \<Rightarrow> VehicleEditor \<Rightarrow> VehicleEditor result" where
  "road_mouse_release i pos_x pos_y ed =
     (case getitem (roads ed) i of
        Inl e \<Rightarrow> Raised e ed
      | Inr road \<Rightarrow>
          if \<not> locked road then
            Done (update_status (St_RoadMoved (road_id road) pos_y)
                    (ed\<lparr>roads := (roads ed)[i := road\<lparr>road_x := pos_x, road_y := pos_y\<rparr>],
                        scene_items := (scene_items ed)[i := RoadItem (road_id road) pos_x pos_y]\<rparr>))
          else
            Done (update_status (St_RoadLockedCannotMove (road_id road))
                    (ed\<lparr>scene_items :=
                          (scene_items ed)[i := RoadItem (road_id road) (road_x road) (road_y road)]\<rparr>)))"

subsection \<open>Vehicles and cameras\<close>

definition add_vehicle_to_scene :: "string option \<Rightarrow> VehicleEditor \<Rightarrow> VehicleEditor result" where
  "add_vehicle_to_scene selected ed =
     (case selected of
        None \<Rightarrow> Done (message_box Dlg_SelectVehicleAssetFirst ed)
      | Some name \<Rightarrow>
          (case map_of (vehicle_pixmaps ed) name of
             None \<Rightarrow> Raised KeyError ed
           | Some pm \<Rightarrow>
               (let vid = next_vehicle_id ed;
                    vehicle = \<lparr>vehicle_id = vid, vehicle_pixmap = pm, vehicle_name = name,
                               vehicle_scale = 0.5, trajectory = []\<rparr>
                in redraw_scene
                     (update_status (St_VehicleAdded name vid)
                        (ed\<lparr>next_vehicle_id := next_vehicle_id ed + 1,
                            vehicles := vehicles ed @ [vehicle]\<rparr>)))))"

definition on_vehicle_selected :: "int \<Rightarrow> VehicleEditor \<Rightarrow> VehicleEditor result" where
  "on_vehicle_selected idx ed =
     (if 0 \<le> idx \<and> idx < int (length (vehicles ed))
      then Done (update_status (St_VehicleSelected (vehicle_id (vehicles ed ! nat idx))
                                  (vehicle_name (vehicles ed ! nat idx)))
                   (ed\<lparr>selected_vehicle := Some (nat idx)\<rparr>))
      else Done ed)"

definition remove_vehicle :: "bool \<Rightarrow> VehicleEditor \<Rightarrow> VehicleEditor result" where
  "remove_vehicle reply_yes ed =
     (case selected_vehicle ed of
        None \<Rightarrow> Done (message_box Dlg_SelectVehicleFirst ed)
      | Some i \<Rightarrow>
          (case getitem (vehicles ed) i of
             Inl e \<Rightarrow> Raised e ed
           | Inr vehicle \<Rightarrow>
               if reply_yes then
                 redraw_scene
                   (update_status St_VehicleRemoved
                      (ed\<lparr>vehicles := remove_at i (vehicles ed), selected_vehicle := None\<rparr>))
               else Done ed))"

definition add_trajectory_point ::
  "real \<Rightarrow> real \<Rightarrow> real \<Rightarrow> real \<Rightarrow> Vehicle \<Rightarrow> Vehicle" where
  "add_trajectory_point x y time_value pause vehicle =
     vehicle\<lparr>trajectory := trajectory vehicle
                @ [\<lparr>tp_x = x, tp_y = y, tp_time = time_value, tp_pause_duration = pause\<rparr>]\<rparr>"

definition add_camera_to_scene :: "VehicleEditor \<Rightarrow> VehicleEditor result" where
  "add_camera_to_scene ed =
     (case camera_pixmaps ed of
        [] \<Rightarrow> Done (message_box Dlg_NoCameraAssets ed)
      | pm # others \<Rightarrow>
          (let x = 200 + real_of_int (next_camera_id ed) * 50;
               y = 100;
               cid = next_camera_id ed;
               camera = \<lparr>camera_id = cid, camera_pixmap = pm, camera_x = x, camera_y = y,
                          camera_scale = 1.0\<rparr>
           in redraw_scene
                (update_status (St_CameraAdded cid)
                   (ed\<lparr>next_camera_id := next_camera_id ed + 1,
                       cameras := cameras ed @ [camera]\<rparr>))))"

definition remove_camera :: "nat option \<Rightarrow> bool \<Rightarrow> VehicleEditor \<Rightarrow> VehicleEditor result" where
  "remove_camera selected_row reply_yes ed =
     (case selected_row of
        None \<Rightarrow> Done (message_box Dlg_SelectCameraFirst ed)
      | Some idx \<Rightarrow>
          (case getitem (cameras ed) idx of
             Inl e \<Rightarrow> Raised e ed
           | Inr camera \<Rightarrow>
               if reply_yes then
                 redraw_scene
                   (update_status St_CameraRemoved (ed\<lparr>cameras := remove_at idx (cameras ed)\<rparr>))
               else Done ed))"

subsection \<open>Margins\<close>

definition shift_x :: "real \<Rightarrow> VehicleEditor \<Rightarrow> VehicleEditor" where
  "shift_x offset ed =
     ed\<lparr>roads := map (\<lambda>road. road\<lparr>road_x := road_x road + offset\<rparr>) (roads ed),
        vehicles := map (\<lambda>vehicle. vehicle\<lparr>trajectory :=
                           map (\<lambda>point. point\<lparr>tp_x := tp_x point + offset\<rparr>) (trajectory vehicle)\<rparr>)
                        (vehicles ed),
        cameras := map (\<lambda>camera. camera\<lparr>camera_x := camera_x camera + offset\<rparr>) (cameras ed),
        text_labels := map (\<lambda>label. label\<lparr>label_x := label_x label + offset\<rparr>) (text_labels ed)\<rparr>"

definition on_margin_changed :: "int \<Rightarrow> VehicleEditor \<Rightarrow> VehicleEditor result" where
  "on_margin_changed new_value ed =
     (let old_margin = left_margin ed;
          offset = new_value - old_margin
      in redraw_scene
           (update_status (St_MarginChanged new_value)
              (update_status (St_MarginChanged new_value)
                 (shift_x (real_of_int offset) (ed\<lparr>left_margin := new_value\<rparr>)))))"

subsection \<open>Playback\<close>

definition toggle_play :: "VehicleEditor \<Rightarrow> VehicleEditor result" where
  "toggle_play ed =
     redraw_scene
       (if is_playing ed then ed\<lparr>is_playing := False, show_trajectory := True\<rparr>
        else ed\<lparr>is_playing := True, show_trajectory := False\<rparr>)"

text \<open>
  The loop of \<^verbatim>\<open>update_animation\<close> that computes \<^verbatim>\<open>max_t\<close> (lines 1028-1031), and the
  timer slot itself.  The tick of 33 ms is the literal \<^verbatim>\<open>0.033\<close>.
\<close>

definition compute_max_t :: "Vehicle list \<Rightarrow> real" where
  "compute_max_t vs =
     fold (\<lambda>vehicle max_t.
             if trajectory vehicle \<noteq> [] then max max_t (tp_time (last (trajectory vehicle)))
             else max_t)
          vs 0"

definition update_animation :: "VehicleEditor \<Rightarrow> VehicleEditor result" where
  "update_animation ed =
     (let ed1 = ed\<lparr>current_time := current_time ed + 33 / 1000\<rparr>;
          max_t = compute_max_t (vehicles ed1);
          ed2 = (if max_t > 0 then ed1\<lparr>max_time := max_t\<rparr> else ed1);
          ed3 = (if current_time ed2 > max_time ed2 then ed2\<lparr>current_time := 0\<rparr> else ed2);
          slider_value = py_int ((current_time ed3 / max (max_time ed3) 1) * 1000)
      in redraw_scene (ed3\<lparr>time_slider := slider_value\<rparr>))"

section \<open>Video export\<close>





definition overlay_item :: "scene_item \<Rightarrow> bool" where
  "overlay_item it =
     (case it of TrajectoryLine x1 y1 x2 y2 \<Rightarrow> True | TrajectoryDot x y \<Rightarrow> True | _ \<Rightarrow> False)"

section \<open>Project files\<close>

datatype json =
    JNull
  | JBool bool
  | JInt int
  | JReal real
  | JString string
  | JArray "json list"
  | JObject "(string \<times> json) list"

text \<open>The dictionary that \<^verbatim>\<open>save_project\<close> of \<^verbatim>\<open>vehicle_editor_fixed.py\<close> dumps.\<close>

definition project_document :: "VehicleEditor \<Rightarrow> json" where
  "project_document ed =
     JObject
       [(''roads'',
           JArray (map (\<lambda>r. JObject [(''id'', JInt (road_id r)), (''x'', JReal (road_x r)),
                                      (''y'', JReal (road_y r)), (''locked'', JBool (locked r))])
                       (roads ed))),
        (''vehicles'',
           JArray (map (\<lambda>v. JObject
                          [(''id'', JInt (vehicle_id v)),
                           (''name'', JString (vehicle_name v)),
                           (''scale'', JReal (vehicle_scale v)),
                           (''trajectory'',
                              JArray (map (\<lambda>p. JObject [(''x'', JReal (tp_x p)), (''y'', JReal (tp_y p)),
                                                         (''time'', JReal (tp_time p)),
                                                         (''pause'', JReal (tp_pause_duration p))])
                                          (trajectory v)))])
                       (vehicles ed))),
        (''cameras'',
           JArray (map (\<lambda>c. JObject [(''id'', JInt (camera_id c)), (''x'', JReal (camera_x c)),
                                      (''y'', JReal (camera_y c)), (''scale'', JReal (camera_scale c))])
                       (cameras ed))),
        (''text_labels'',
           JArray (map (\<lambda>t. JObject [(''text'', JString (label_text t)), (''x'', JReal (label_x t)),
                                      (''y'', JReal (label_y t)), (''font_size'', JInt (font_size t)),
                                      (''color'', JString (color t))])
                       (text_labels ed)))]"

text \<open>
  \<^verbatim>\<open>save_project\<close>: the second component is the document written, if the operator chose a
  file.
\<close>

definition save_project :: "string \<Rightarrow> VehicleEditor \<Rightarrow> VehicleEditor \<times> json option" where
  "save_project filename ed =
     (if filename = [] then (ed, None)
      else (message_box (Dlg_ProjectSaved filename) (update_status (St_ProjectSaved filename) ed),
            Some (project_document ed)))"

text \<open>
  The editor of \<^verbatim>\<open>vehicle_editor_with_assets.py\<close>, as far as \<^verbatim>\<open>load_project\<close> touches it.
  \<^verbatim>\<open>load_project\<close> never looks inside an entity or a scene item, so their types are left
  open.  The spin box that displays \<^verbatim>\<open>max_time\<close> is not modelled.
\<close>

record ('v, 'c, 'l, 'i) assets_editor =
  ae_vehicles :: "'v list"
  ae_cameras :: "'c list"
  ae_text_labels :: "'l list"
  ae_vehicle_items :: "(int \<times> 'i) list"
  ae_camera_items :: "(int \<times> 'i) list"
  ae_text_items :: "(int \<times> 'i) list"
  ae_max_time :: json
  ae_loaded :: "string list"

text \<open>\<^verbatim>\<open>data.get(key, default)\<close> on a parsed document.\<close>

definition json_get :: "json \<Rightarrow> string \<Rightarrow> json \<Rightarrow> py_error + json" where
  "json_get data key default_value =
     (case data of
        JObject entries \<Rightarrow>
          (case map_of entries key of None \<Rightarrow> Inr default_value | Some v \<Rightarrow> Inr v)
      | _ \<Rightarrow> Inl AttributeError)"

text \<open>
  \<^verbatim>\<open>load_project\<close> (lines 661-696) applied to the document read from the chosen file.  After
  clearing the editor it reads \<^verbatim>\<open>max_time\<close>; the rest of the loading is a \<^verbatim>\<open>TODO\<close> comment
  in the source.
\<close>

definition load_project ::
  "string \<Rightarrow> json \<Rightarrow> ('v, 'c, 'l, 'i) assets_editor \<Rightarrow> ('v, 'c, 'l, 'i) assets_editor result" where
  "load_project filename data ed =
     (if filename = [] then Done ed
      else
        (let ed1 = ed\<lparr>ae_vehicles := [], ae_cameras := [], ae_text_labels := [],
                      ae_vehicle_items := [], ae_camera_items := [], ae_text_items := []\<rparr>
         in case json_get data ''max_time'' (JReal 10.0) of
              Inl e \<Rightarrow> Raised e ed1
            | Inr m \<Rightarrow> Done (ed1\<lparr>ae_max_time := m, ae_loaded := ae_loaded ed1 @ [filename]\<rparr>)))"

section \<open>The earlier editor \<^verbatim>\<open>vehicle_editor_v3.py\<close>\<close>

text \<open>
  Adding and removing vehicles in \<^verbatim>\<open>vehicle_editor_v3.py\<close> (lines 633-655 and 712-733).
  The scene refresh that ends both operations reads the entity lists without changing them
  and is left out.
\<close>

record v3_editor =
  v3_vehicles :: "Vehicle list"
  v3_selected_vehicle :: "nat option"
  v3_vehicle_pixmaps :: "(string \<times> pixmap) list"
  v3_dialog_log :: "dialog_message list"
  v3_status_log :: "status_message list"

definition v3_add_vehicle_to_scene :: "string option \<Rightarrow> v3_editor \<Rightarrow> v3_editor result" where
  "v3_add_vehicle_to_scene selected ed =
     (case selected of
        None \<Rightarrow> Done (ed\<lparr>v3_dialog_log := v3_dialog_log ed @ [Dlg_SelectVehicleAssetFirst]\<rparr>)
      | Some name \<Rightarrow>
          (case map_of (v3_vehicle_pixmaps ed) name of
             None \<Rightarrow> Raised KeyError ed
           | Some pm \<Rightarrow>
               (let vid = int (length (v3_vehicles ed));
                    vehicle = \<lparr>vehicle_id = vid, vehicle_pixmap = pm, vehicle_name = name,
                               vehicle_scale = 1.0, trajectory = []\<rparr>
                in Done (ed\<lparr>v3_vehicles := v3_vehicles ed @ [vehicle],
                            v3_status_log := v3_status_log ed @ [St_VehicleAdded name vid]\<rparr>))))"

definition v3_on_vehicle_selected :: "int \<Rightarrow> v3_editor \<Rightarrow> v3_editor result" where
  "v3_on_vehicle_selected idx ed =
     (if 0 \<le> idx \<and> idx < int (length (v3_vehicles ed))
      then Done (ed\<lparr>v3_selected_vehicle := Some (nat idx)\<rparr>)
      else Done ed)"

definition v3_remove_vehicle :: "bool \<Rightarrow> v3_editor \<Rightarrow> v3_editor result" where
  "v3_remove_vehicle reply_yes ed =
     (case v3_selected_vehicle ed of
        None \<Rightarrow> Done (ed\<lparr>v3_dialog_log := v3_dialog_log ed @ [Dlg_SelectVehicleFirst]\<rparr>)
      | Some i \<Rightarrow>
          (case getitem (v3_vehicles ed) i of
             Inl e \<Rightarrow> Raised e ed
           | Inr vehicle \<Rightarrow>
               if reply_yes then
                 Done (ed\<lparr>v3_vehicles := remove_at i (v3_vehicles ed),
                          v3_selected_vehicle := None,
                          v3_status_log := v3_status_log ed @ [St_VehicleRemoved]\<rparr>)
               else Done ed))"

section \<open>Sessions of the editor\<close>

text \<open>
  The state built by \<^verbatim>\<open>VehicleEditor.__init__\<close> from the assets found on disk: empty
  lists, counters at zero, and one default road if a road sprite exists.
\<close>

definition blank_editor ::
  "(string \<times> pixmap) list \<Rightarrow> pixmap list \<Rightarrow> pixmap list \<Rightarrow> VehicleEditor" where
  "blank_editor vehicle_pms camera_pms road_pms =
     \<lparr>roads = [], vehicles = [], cameras = [], text_labels = [],
      next_vehicle_id = 0, next_camera_id = 0, next_road_id = 0,
      vehicle_pixmaps = vehicle_pms, camera_pixmaps = camera_pms, road_pixmaps = road_pms,
      left_margin = 200, top_margin = 100,
      current_time = 0, max_time = 10,
      is_playing = False, show_trajectory = True,
      selected_vehicle = None, selected_road = None,
      scene_items = [], scene_rect = (0, 0, 0, 0), time_slider = 0,
      status_log = [], dialog_log = []\<rparr>"

definition editor_init ::
  "(string \<times> pixmap) list \<Rightarrow> pixmap list \<Rightarrow> pixmap list \<Rightarrow> VehicleEditor result" where
  "editor_init vehicle_pms camera_pms road_pms =
     (let ed = blank_editor vehicle_pms camera_pms road_pms
      in if road_pixmaps ed \<noteq> []
         then add_road (real_of_int (left_margin ed)) (real_of_int (top_margin ed)) ed
         else Done ed)"

datatype editor_op =
    Op_add_road_interactive
  | Op_on_road_selected int
  | Op_toggle_lock_road bool
  | Op_remove_road bool
  | Op_road_mouse_release nat real real
  | Op_add_vehicle_to_scene "string option"
  | Op_on_vehicle_selected int
  | Op_remove_vehicle bool
  | Op_add_camera_to_scene
  | Op_remove_camera "nat option" bool
  | Op_on_margin_changed int
  | Op_toggle_play
  | Op_update_animation
  | Op_fit_view_to_roads

fun step :: "editor_op \<Rightarrow> VehicleEditor \<Rightarrow> VehicleEditor result" where
  "step Op_add_road_interactive ed = add_road_interactive ed"
| "step (Op_on_road_selected idx) ed = on_road_selected idx ed"
| "step (Op_toggle_lock_road checked) ed = toggle_lock_road checked ed"
| "step (Op_remove_road reply_yes) ed = remove_road reply_yes ed"
| "step (Op_road_mouse_release i pos_x pos_y) ed = road_mouse_release i pos_x pos_y ed"
| "step (Op_add_vehicle_to_scene selected) ed = add_vehicle_to_scene selected ed"
| "step (Op_on_vehicle_selected idx) ed = on_vehicle_selected idx ed"
| "step (Op_remove_vehicle reply_yes) ed = remove_vehicle reply_yes ed"
| "step Op_add_camera_to_scene ed = add_camera_to_scene ed"
| "step (Op_remove_camera selected_row reply_yes) ed = remove_camera selected_row reply_yes ed"
| "step (Op_on_margin_changed new_value) ed = on_margin_changed new_value ed"
| "step Op_toggle_play ed = toggle_play ed"
| "step Op_update_animation ed = update_animation ed"
| "step Op_fit_view_to_roads ed = fit_view_to_roads ed"

text \<open>
  The identifiers given out by one operation, read off the entities that it appended to
  the three collections, and the identifiers given out during a whole session.  An
  exception ends the session.
\<close>

datatype collection = Vehicles | Cameras | Roads

definition state_of :: "'a result \<Rightarrow> 'a" where
  "state_of r = (case r of Done s \<Rightarrow> s | Raised e s \<Rightarrow> s)"

definition created :: "VehicleEditor \<Rightarrow> VehicleEditor \<Rightarrow> (collection \<times> int) list" where
  "created ed ed' =
     map (\<lambda>v. (Vehicles, vehicle_id v)) (drop (length (vehicles ed)) (vehicles ed'))
     @ map (\<lambda>c. (Cameras, camera_id c)) (drop (length (cameras ed)) (cameras ed'))
     @ map (\<lambda>r. (Roads, road_id r)) (drop (length (roads ed)) (roads ed'))"

fun ids_created :: "editor_op list \<Rightarrow> VehicleEditor \<Rightarrow> (collection \<times> int) list" where
  "ids_created [] ed = []"
| "ids_created (operation # rest) ed =
     (case step operation ed of
        Done ed' \<Rightarrow> created ed ed' @ ids_created rest ed'
      | Raised e ed' \<Rightarrow> created ed ed')"

text \<open>
  The wrap-around time as the specification words it, for comparison with
  \<^verbatim>\<open>update_animation\<close>: the largest \<open>arrivalTime + pauseDuration\<close> over the waypoints of all
  vehicles with at least two waypoints, and at least \<open>1\<close>.
\<close>

definition spec_max_time :: "Vehicle list \<Rightarrow> real" where
  "spec_max_time vs =
     fold max
       (concat (map (\<lambda>v. if 2 \<le> length (trajectory v)
                          then map (\<lambda>p. tp_time p + tp_pause_duration p) (trajectory v)
                          else [])
                    vs))
       1"


section \<open>Concrete scenes\<close>

text \<open>
  A playing editor whose only vehicle ends with a pause of three seconds at its last
  waypoint, and one whose only vehicle finishes after half a second.
\<close>

definition late_pause_editor :: VehicleEditor where
  "late_pause_editor =
     (blank_editor [] [] [])
       \<lparr>vehicles :=
          [\<lparr>vehicle_id = 0, vehicle_pixmap = \<lparr>pm_width = 40, pm_height = 20\<rparr>,
            vehicle_name = ''car'', vehicle_scale = 0.5,
            trajectory = [\<lparr>tp_x = 0, tp_y = 0, tp_time = 0, tp_pause_duration = 0\<rparr>,
                          \<lparr>tp_x = 100, tp_y = 0, tp_time = 2, tp_pause_duration = 3\<rparr>]\<rparr>],
        current_time := 2.5, is_playing := True, show_trajectory := False\<rparr>"

definition brief_editor :: VehicleEditor where
  "brief_editor =
     (blank_editor [] [] [])
       \<lparr>vehicles :=
          [\<lparr>vehicle_id = 0, vehicle_pixmap = \<lparr>pm_width = 40, pm_height = 20\<rparr>,
            vehicle_name = ''car'', vehicle_scale = 0.5,
            trajectory = [\<lparr>tp_x = 0, tp_y = 0, tp_time = 0, tp_pause_duration = 0\<rparr>,
                          \<lparr>tp_x = 10, tp_y = 0, tp_time = 0.5, tp_pause_duration = 0\<rparr>]\<rparr>],
        current_time := 0.6, is_playing := True, show_trajectory := False\<rparr>"

text \<open>
  The scene of the bounds scenario: two roads of \<open>2000 \<times> 420\<close> pixels at \<open>(200, 0)\<close> and
  \<open>(200, 420)\<close>; and an editor whose single road is locked and selected.
\<close>

definition two_road_editor :: VehicleEditor where
  "two_road_editor =
     (blank_editor [] [] [\<lparr>pm_width = 2000, pm_height = 420\<rparr>])
       \<lparr>roads := [\<lparr>road_id = 0, road_pixmap = \<lparr>pm_width = 2000, pm_height = 420\<rparr>,
                   road_x = 200, road_y = 0, locked = False\<rparr>,
                  \<lparr>road_id = 1, road_pixmap = \<lparr>pm_width = 2000, pm_height = 420\<rparr>,
                   road_x = 200, road_y = 420, locked = False\<rparr>],
        next_road_id := 2\<rparr>"


text \<open>An editor of \<^verbatim>\<open>vehicle_editor_with_assets.py\<close> that holds nothing yet.\<close>

definition fresh_assets_editor :: "(unit, unit, unit, unit) assets_editor" where
  "fresh_assets_editor =
     \<lparr>ae_vehicles = [], ae_cameras = [], ae_text_labels = [],
      ae_vehicle_items = [], ae_camera_items = [], ae_text_items = [],
      ae_max_time = JReal 10, ae_loaded = []\<rparr>"

text \<open>
  A session of \<^verbatim>\<open>vehicle_editor_v3.py\<close>: two vehicles are added, the first one is selected
  and removed, and a third vehicle is added.
\<close>

definition v3_blank :: v3_editor where
  "v3_blank = \<lparr>v3_vehicles = [], v3_selected_vehicle = None,
               v3_vehicle_pixmaps = [(''red'', \<lparr>pm_width = 40, pm_height = 20\<rparr>)],
               v3_dialog_log = [], v3_status_log = []\<rparr>"

definition v3_session :: "v3_editor" where
  "v3_session =
     state_of (v3_add_vehicle_to_scene (Some ''red'')
       (state_of (v3_remove_vehicle True
         (state_of (v3_on_vehicle_selected 0
           (state_of (v3_add_vehicle_to_scene (Some ''red'')
             (state_of (v3_add_vehicle_to_scene (Some ''red'') v3_blank)))))))))"

section \<open>Identifiers and counters\<close>

text \<open>
  The identifiers present in a collection and the counter that feeds it.  One operation
  either appends the counter value to a collection and increments the counter, or leaves
  the counter alone and adds no identifier; \<open>fresh_ids\<close> are the identifiers an operation
  appended.
\<close>

definition ids :: "collection \<Rightarrow> VehicleEditor \<Rightarrow> int list" where
  "ids c ed =
     (case c of
        Vehicles \<Rightarrow> map vehicle_id (vehicles ed)
      | Cameras \<Rightarrow> map camera_id (cameras ed)
      | Roads \<Rightarrow> map road_id (roads ed))"

definition counter :: "collection \<Rightarrow> VehicleEditor \<Rightarrow> int" where
  "counter c ed =
     (case c of
        Vehicles \<Rightarrow> next_vehicle_id ed
      | Cameras \<Rightarrow> next_camera_id ed
      | Roads \<Rightarrow> next_road_id ed)"

definition id_step :: "VehicleEditor \<Rightarrow> VehicleEditor \<Rightarrow> bool" where
  "id_step ed ed' \<longleftrightarrow>
     (\<forall>c. (ids c ed' = ids c ed @ [counter c ed] \<and> counter c ed' = counter c ed + 1)
          \<or> (counter c ed' = counter c ed \<and> set (ids c ed') \<subseteq> set (ids c ed)
              \<and> length (ids c ed') \<le> length (ids c ed)))"

definition fresh_ids :: "collection \<Rightarrow> VehicleEditor \<Rightarrow> VehicleEditor \<Rightarrow> int list" where
  "fresh_ids c ed ed' = drop (length (ids c ed)) (ids c ed')"

section \<open>Properties of the trajectory interpolation\<close>

subsection \<open>Loops\<close>

lemma for_each_no_raise:
  "(\<And>i s e s'. i \<in> set xs \<Longrightarrow> body i s \<noteq> Raise e s') \<Longrightarrow> for_each body xs s \<noteq> Raise e s'"
proof (induction xs arbitrary: s)
  case Nil
  then show ?case by simp
next
  case (Cons i xs)
  show ?case
  proof (cases "body i s")
    case (Raise e1 s1)
    with Cons.prems[of i s e1 s1] show ?thesis by simp
  next
    case (Return r)
    then show ?thesis by simp
  next
    case (Continue s1)
    with Cons.IH[of s1] Cons.prems show ?thesis by simp
  qed
qed

lemma for_each_continue_or_return:
  "(\<And>i. i \<in> set xs \<Longrightarrow> body i s = Continue s \<or> body i s = Return r)
   \<Longrightarrow> for_each body xs s = Continue s \<or> for_each body xs s = Return r"
proof (induction xs)
  case Nil
  then show ?case by simp
next
  case (Cons a xs)
  have "body a s = Continue s \<or> body a s = Return r"
    using Cons.prems by simp
  moreover have "for_each body xs s = Continue s \<or> for_each body xs s = Return r"
    using Cons by simp
  ultimately show ?case by auto
qed

subsection \<open>The interpolation never raises\<close>

lemma travel_return_no_raise: "travel_return p q t d \<noteq> Raise e s"
  by (simp add: travel_return_def py_truediv_def)

lemma position_body_no_raise:
  "i < length tr \<Longrightarrow> position_body tr t i u \<noteq> Raise e s"
  by (auto simp: position_body_def getitem_def Let_def travel_return_no_raise)

lemma get_position_at_time_total: "\<exists>p. get_position_at_time tr t = Inr p"
proof -
  have "for_each (position_body tr t) [0..<length tr] () \<noteq> Raise e s" for e s
    by (rule for_each_no_raise) (simp add: position_body_no_raise)
  then show ?thesis
    by (cases "for_each (position_body tr t) [0..<length tr] ()")
       (auto simp: get_position_at_time_def point_result_def getitem_def getitem_last_def)
qed

lemma v3_position_body_no_raise:
  "i < length tr \<Longrightarrow> v3_position_body tr t i a \<noteq> Raise e s"
  by (auto simp: v3_position_body_def getitem_def Let_def py_truediv_def)

lemma v3_get_position_at_time_total: "\<exists>p. v3_get_position_at_time tr t = Inr p"
proof -
  have "for_each (v3_position_body tr t) [0..<length tr] 0 \<noteq> Raise e s" for e s
    by (rule for_each_no_raise) (simp add: v3_position_body_no_raise)
  then show ?thesis
    by (cases "for_each (v3_position_body tr t) [0..<length tr] 0")
       (auto simp: v3_get_position_at_time_def point_result_def getitem_def getitem_last_def)
qed

text \<open>
  C10: for every query time \<open>t\<close>, a vehicle whose waypoint list is empty is placed at the
  fixed default position \<open>(100, 100)\<close>, not \<open>(0, 0)\<close>, and no exception is raised.  Both
  editors that store pauses, \<^verbatim>\<open>vehicle_editor_fixed.py\<close> and \<^verbatim>\<open>vehicle_editor_v3.py\<close>,
  agree on this.
\<close>

theorem empty_trajectory_default:
  "get_position_at_time [] t = Inr (100, 100) \<and> v3_get_position_at_time [] t = Inr (100, 100)"
  by (simp add: get_position_at_time_def v3_get_position_at_time_def)

subsection \<open>The scenario of the specification\<close>

lemmas scenario_eval = scenario_def get_position_at_time_def position_body_def
  v3_get_position_at_time_def v3_position_body_def getitem_def getitem_last_def
  py_truediv_def travel_return_def pos_of_def point_result_def upt_conv_Cons Let_def

text \<open>
  C1 (amended): for the waypoint list \<open>[(0,0) at 0 pausing 0, (100,0) at 2 pausing 1,
  (100,100) at 4 pausing 0]\<close>, \<^verbatim>\<open>get_position_at_time\<close> of \<^verbatim>\<open>vehicle_editor_fixed.py\<close>
  returns \<open>(50,0)\<close> at \<open>t = 1\<close>, \<open>(100,0)\<close> at \<open>t = 2.5\<close>, still \<open>(100,0)\<close> at \<open>t = 3\<close>, where the
  pause ends and the travel segment begins, \<open>(100,50)\<close> at \<open>t = 3.5\<close>, the middle of that
  segment, and \<open>(100,100)\<close> at \<open>t = 10\<close>.
\<close>

theorem scenario_positions:
  "get_position_at_time scenario 1 = Inr (50, 0)
   \<and> get_position_at_time scenario 2.5 = Inr (100, 0)
   \<and> get_position_at_time scenario 3 = Inr (100, 0)
   \<and> get_position_at_time scenario 3.5 = Inr (100, 50)
   \<and> get_position_at_time scenario 10 = Inr (100, 100)"
  by (simp add: scenario_eval)

text \<open>
  The four values of the specification's scenario are met by neither editor: the editor of
  \<^verbatim>\<open>vehicle_editor_fixed.py\<close> is still at \<open>(100,0)\<close> at \<open>t = 3\<close>, and the one of
  \<^verbatim>\<open>vehicle_editor_v3.py\<close> has left the second waypoint at \<open>t = 2.5\<close>.
\<close>

theorem scenario_claim_fails:
  "\<not> (get_position_at_time scenario 1 = Inr (50, 0)
      \<and> get_position_at_time scenario 2.5 = Inr (100, 0)
      \<and> get_position_at_time scenario 3 = Inr (100, 50)
      \<and> get_position_at_time scenario 10 = Inr (100, 100))
   \<and> \<not> (v3_get_position_at_time scenario 1 = Inr (50, 0)
      \<and> v3_get_position_at_time scenario 2.5 = Inr (100, 0)
      \<and> v3_get_position_at_time scenario 3 = Inr (100, 50)
      \<and> v3_get_position_at_time scenario 10 = Inr (100, 100))"
  by (simp add: scenario_eval)

lemma v3_scenario_positions:
  "v3_get_position_at_time scenario 1 = Inr (50, 0)
   \<and> v3_get_position_at_time scenario 2.5 = Inr (100, 25)
   \<and> v3_get_position_at_time scenario 3 = Inr (100, 50)
   \<and> v3_get_position_at_time scenario 10 = Inr (100, 100)"
  by (simp add: scenario_eval)

subsection \<open>Clamping at both ends\<close>

lemma clamp_start:
  assumes "tr \<noteq> []" and "0 \<le> tp_pause_duration (hd tr)" and "t \<le> tp_time (hd tr)"
  shows "get_position_at_time tr t = Inr (pos_of (hd tr))"
proof -
  have first: "getitem tr 0 = Inr (hd tr)"
    using assms(1) by (cases tr) (simp_all add: getitem_def)
  have "0 < length tr" using assms(1) by simp
  then have upt: "[0..<length tr] = 0 # [Suc 0..<length tr]"
    by (rule upt_conv_Cons)
  have "position_body tr t 0 () = Return (pos_of (hd tr))"
    using assms(2,3) by (simp add: position_body_def first)
  then have "for_each (position_body tr t) [0..<length tr] () = Return (pos_of (hd tr))"
    by (subst upt) simp
  then show ?thesis
    using assms(1) by (simp add: get_position_at_time_def point_result_def first)
qed

lemma position_body_after_end:
  assumes len: "2 \<le> length tr"
    and nonneg: "\<forall>p\<in>set tr. 0 \<le> tp_time p \<and> 0 \<le> tp_pause_duration p"
    and after_last: "tp_time (last tr) + tp_pause_duration (last tr) \<le> t"
    and after_rest: "\<forall>p\<in>set (butlast tr). tp_time p + tp_pause_duration p < t"
    and i: "i < length tr"
  shows "position_body tr t i () = Continue ()
         \<or> position_body tr t i () = Return (pos_of (last tr))"
proof -
  have ne: "tr \<noteq> []" using len by auto
  have last_nth: "last tr = tr ! (length tr - 1)"
    using ne by (rule last_conv_nth)
  have early: "tp_time (tr ! j) + tp_pause_duration (tr ! j) < t \<and> tp_time (tr ! j) < t"
    if "j < length tr - 1" for j
  proof -
    have "tr ! j \<in> set (butlast tr)"
      using that by (metis length_butlast nth_butlast nth_mem)
    moreover have "tr ! j \<in> set tr" using that by simp
    ultimately show ?thesis using after_rest nonneg by fastforce
  qed
  have last_pause: "0 \<le> tp_pause_duration (tr ! (length tr - 1))"
    using nonneg len by simp
  have last_time: "tp_time (tr ! (length tr - 1)) + tp_pause_duration (tr ! (length tr - 1)) \<le> t"
    using after_last last_nth by simp
  consider (first) "i = 0" | (middle) "0 < i" "i < length tr - 1" | (final) "0 < i" "i = length tr - 1"
    using i by linarith
  then show ?thesis
  proof cases
    case first
    have e0: "tp_time (tr ! 0) + tp_pause_duration (tr ! 0) < t"
      using early[of 0] len by simp
    show ?thesis
    proof (cases "length tr = 2")
      case True
      then have l1: "tr ! 1 = last tr" using last_nth by simp
      show ?thesis
      proof (cases "t \<le> tp_time (tr ! 1)")
        case True
        then have "t = tp_time (last tr)"
          using last_time last_pause l1 last_nth by simp
        then show ?thesis
          using first e0 len l1 True ne
          by (simp add: position_body_def getitem_def travel_return_def py_truediv_def pos_of_def)
      next
        case False
        then show ?thesis
          using first e0 len ne by (simp add: position_body_def getitem_def)
      qed
    next
      case False
      then have "tp_time (tr ! 1) < t" using early[of 1] len by simp
      then show ?thesis
        using first e0 len ne by (simp add: position_body_def getitem_def)
    qed
  next
    case middle
    have ei: "tp_time (tr ! i) + tp_pause_duration (tr ! i) < t"
      using early[of i] middle by simp
    have idx: "int i < int (length tr) - 1" using middle by linarith
    show ?thesis
    proof (cases "Suc i = length tr - 1")
      case True
      then have l1: "tr ! (Suc i) = last tr" using last_nth by simp
      show ?thesis
      proof (cases "t \<le> tp_time (tr ! Suc i)")
        case True
        then have "t = tp_time (last tr)"
          using last_time last_pause l1 last_nth by simp
        then show ?thesis
          using middle ei idx l1 True i
          by (simp add: position_body_def getitem_def travel_return_def py_truediv_def pos_of_def
              Let_def)
      next
        case False
        then show ?thesis
          using middle ei idx i
          by (simp add: position_body_def getitem_def Let_def)
      qed
    next
      case False
      then have "tp_time (tr ! Suc i) < t" using early[of "Suc i"] middle by simp
      then show ?thesis
        using middle ei idx i by (simp add: position_body_def getitem_def Let_def)
    qed
  next
    case final
    have idx: "\<not> int i < int (length tr) - 1" using final by linarith
    show ?thesis
      using final idx i last_nth
      by (simp add: position_body_def getitem_def Let_def)
  qed
qed

lemma clamp_end:
  assumes ne: "tr \<noteq> []"
    and nonneg: "\<forall>p\<in>set tr. 0 \<le> tp_time p \<and> 0 \<le> tp_pause_duration p"
    and after_last: "tp_time (last tr) + tp_pause_duration (last tr) \<le> t"
    and after_rest: "\<forall>p\<in>set (butlast tr). tp_time p + tp_pause_duration p < t"
  shows "get_position_at_time tr t = Inr (pos_of (last tr))"
proof (cases "length tr = 1")
  case True
  then obtain p where "tr = [p]" by (cases tr) auto
  then show ?thesis
    by (simp add: get_position_at_time_def point_result_def getitem_def)
next
  case False
  moreover have "length tr \<noteq> 0" using ne by simp
  ultimately have len: "2 \<le> length tr" by linarith
  have "butlast tr ! 0 \<in> set (butlast tr)"
    using len by (intro nth_mem) simp
  moreover have "butlast tr ! 0 = hd tr"
    using len ne by (simp add: nth_butlast hd_conv_nth)
  ultimately have "hd tr \<in> set (butlast tr)" by simp
  moreover have "hd tr \<in> set tr" using ne by simp
  ultimately have pos: "0 < t" using after_rest nonneg by fastforce
  have "for_each (position_body tr t) [0..<length tr] () = Continue ()
        \<or> for_each (position_body tr t) [0..<length tr] () = Return (pos_of (last tr))"
    by (rule for_each_continue_or_return)
       (use position_body_after_end[OF len nonneg after_last after_rest] in simp)
  then show ?thesis
    using ne False pos
    by (auto simp: get_position_at_time_def point_result_def getitem_last_def)
qed

text \<open>
  C2 (amended): for every non-empty waypoint list with non-negative arrival times and
  pause durations, \<^verbatim>\<open>get_position_at_time\<close> returns the first waypoint's position whenever
  \<open>t\<close> is at most the first arrival time, and it returns the last waypoint's position
  whenever \<open>t\<close> is at least the last waypoint's arrival time plus pause and strictly later
  than the arrival time plus pause of every earlier waypoint.  The order of the arrival
  times plays no role.
\<close>

theorem clamping:
  assumes "tr \<noteq> []"
    and "\<forall>p\<in>set tr. 0 \<le> tp_time p \<and> 0 \<le> tp_pause_duration p"
  shows "(t \<le> tp_time (hd tr) \<longrightarrow> get_position_at_time tr t = Inr (pos_of (hd tr)))
       \<and> (tp_time (last tr) + tp_pause_duration (last tr) \<le> t
            \<and> (\<forall>p\<in>set (butlast tr). tp_time p + tp_pause_duration p < t)
          \<longrightarrow> get_position_at_time tr t = Inr (pos_of (last tr)))"
  using assms clamp_start[of tr t] clamp_end[of tr t] by simp

theorem clamping_witness:
  "get_position_at_time scenario 0 = Inr (0, 0)
   \<and> get_position_at_time scenario 10 = Inr (100, 100)"
  using clamping[of scenario 0] clamping[of scenario 10]
  by (simp add: scenario_def pos_of_def)

text \<open>
  Without the condition on the earlier waypoints the end is not clamped: in
  \<open>overlap_example\<close> the arrival times \<open>0, 1\<close> are sorted, nothing is negative, and
  \<open>t = 5\<close> is past the last waypoint's departure, yet the vehicle is still held at the
  first waypoint, whose pause lasts until \<open>10\<close>.
\<close>

theorem clamping_counterexample:
  "map tp_time overlap_example = [0, 1]
   \<and> map tp_pause_duration overlap_example = [10, 0]
   \<and> tp_time (last overlap_example) + tp_pause_duration (last overlap_example) \<le> 5
   \<and> pos_of (last overlap_example) = (5, 5)
   \<and> get_position_at_time overlap_example 5 = Inr (0, 0)"
  by (simp add: overlap_example_def scenario_eval)

section \<open>Properties of the scene composition\<close>

text \<open>
  \<^verbatim>\<open>redraw_scene\<close> always completes, changes nothing but the scene and its rectangle, and
  draws no trajectory overlay while \<^verbatim>\<open>show_trajectory\<close> is off.
\<close>

lemma trajectory_overlay_only_if_shown:
  "\<exists>extra. draw_vehicle ed v items = Continue (items @ extra)
           \<and> (\<not> show_trajectory ed \<longrightarrow> (\<forall>it\<in>set extra. \<not> overlay_item it))"
proof -
  obtain x y where p: "get_position_at_time (trajectory v) (current_time ed) = Inr (x, y)"
    using get_position_at_time_total[of "trajectory v" "current_time ed"] by auto
  show ?thesis
    by (cases "show_trajectory ed") (auto simp: draw_vehicle_def p getitem_def overlay_item_def)
qed

lemma draw_vehicles_Continue:
  "\<exists>extra. for_each (draw_vehicle ed) vs items = Continue (items @ extra)
           \<and> (\<not> show_trajectory ed \<longrightarrow> (\<forall>it\<in>set extra. \<not> overlay_item it))"
proof (induction vs arbitrary: items)
  case Nil
  then show ?case by simp
next
  case (Cons v vs)
  obtain e1 where e1: "draw_vehicle ed v items = Continue (items @ e1)"
    "\<not> show_trajectory ed \<longrightarrow> (\<forall>it\<in>set e1. \<not> overlay_item it)"
    using trajectory_overlay_only_if_shown[of ed v items] by auto
  obtain e2 where e2: "for_each (draw_vehicle ed) vs (items @ e1) = Continue ((items @ e1) @ e2)"
    "\<not> show_trajectory ed \<longrightarrow> (\<forall>it\<in>set e2. \<not> overlay_item it)"
    using Cons.IH[of "items @ e1"] by auto
  have "for_each (draw_vehicle ed) (v # vs) items = Continue (items @ (e1 @ e2))"
    using e1(1) e2(1) by simp
  moreover have "\<not> show_trajectory ed \<longrightarrow> (\<forall>it\<in>set (e1 @ e2). \<not> overlay_item it)"
    using e1(2) e2(2) by auto
  ultimately show ?case by blast
qed

lemma redraw_scene_Done:
  "\<exists>items. redraw_scene ed =
             Done (ed\<lparr>scene_items := items, scene_rect := redraw_rect (roads ed) (scene_rect ed)\<rparr>)
           \<and> (\<not> show_trajectory ed \<longrightarrow> (\<forall>it\<in>set items. \<not> overlay_item it))"
proof -
  let ?base = "map (\<lambda>road. RoadItem (road_id road) (road_x road) (road_y road)) (roads ed)
     @ map (\<lambda>camera. CameraItem (camera_id camera) (camera_x camera) (camera_y camera)
                             (camera_scale camera)) (cameras ed)"
  obtain extra where ex: "for_each (draw_vehicle ed) (vehicles ed) ?base = Continue (?base @ extra)"
    "\<not> show_trajectory ed \<longrightarrow> (\<forall>it\<in>set extra. \<not> overlay_item it)"
    using draw_vehicles_Continue[of ed "vehicles ed" ?base] by auto
  let ?labels = "map (\<lambda>label. TextItem (label_text label) (label_x label)
                                 (label_y label) (font_size label) (color label)) (text_labels ed)"
  have "redraw_scene ed =
          Done (ed\<lparr>scene_items := (?base @ extra) @ ?labels,
                    scene_rect := redraw_rect (roads ed) (scene_rect ed)\<rparr>)"
    using ex(1) by (simp add: redraw_scene_def Let_def)
  moreover have "\<not> show_trajectory ed \<longrightarrow> (\<forall>it\<in>set ((?base @ extra) @ ?labels). \<not> overlay_item it)"
    using ex(2) by (auto simp: overlay_item_def)
  ultimately show ?thesis by blast
qed

section \<open>Properties of the animation clock\<close>

lemma Max_insert_max:
  "finite A \<Longrightarrow> Max (insert (max m a) A) = Max (insert m (insert a A))"
  by (cases "A = {}") (simp_all add: ac_simps)

lemma compute_max_t_fold:
  "fold (\<lambda>vehicle max_t.
             if trajectory vehicle \<noteq> [] then max max_t (tp_time (last (trajectory vehicle)))
             else max_t) vs m
   = Max (insert m ((\<lambda>v. tp_time (last (trajectory v))) ` {v \<in> set vs. trajectory v \<noteq> []}))"
proof (induction vs arbitrary: m)
  case Nil
  then show ?case by simp
next
  case (Cons v vs)
  let ?f = "\<lambda>v. tp_time (last (trajectory v))"
  let ?L = "?f ` {v \<in> set vs. trajectory v \<noteq> []}"
  have fin: "finite ?L" by simp
  show ?case
  proof (cases "trajectory v = []")
    case True
    then have "{u \<in> set (v # vs). trajectory u \<noteq> []} = {u \<in> set vs. trajectory u \<noteq> []}"
      by auto
    then show ?thesis using True Cons.IH[of m] by simp
  next
    case False
    then have "{u \<in> set (v # vs). trajectory u \<noteq> []} = insert v {u \<in> set vs. trajectory u \<noteq> []}"
      by auto
    then have "?f ` {u \<in> set (v # vs). trajectory u \<noteq> []} = insert (?f v) ?L" by simp
    moreover have "Max (insert (max m (?f v)) ?L) = Max (insert m (insert (?f v) ?L))"
      using fin by (rule Max_insert_max)
    ultimately show ?thesis using False Cons.IH[of "max m (?f v)"] by simp
  qed
qed

lemma compute_max_t_Max:
  "compute_max_t vs
   = Max (insert 0 ((\<lambda>v. tp_time (last (trajectory v))) ` {v \<in> set vs. trajectory v \<noteq> []}))"
  unfolding compute_max_t_def by (rule compute_max_t_fold)

lemma update_animation_Done:
  "\<exists>ed'. update_animation ed = Done ed'
     \<and> max_time ed' =
         (if 0 < compute_max_t (vehicles ed) then compute_max_t (vehicles ed) else max_time ed)
     \<and> current_time ed' =
         (if max_time ed' < current_time ed + 33 / 1000 then 0 else current_time ed + 33 / 1000)"
proof -
  let ?ed3 = "(let ed1 = ed\<lparr>current_time := current_time ed + 33 / 1000\<rparr>;
          max_t = compute_max_t (vehicles ed1);
          ed2 = (if max_t > 0 then ed1\<lparr>max_time := max_t\<rparr> else ed1);
          ed3 = (if current_time ed2 > max_time ed2 then ed2\<lparr>current_time := 0\<rparr> else ed2)
      in ed3\<lparr>time_slider := py_int ((current_time ed3 / max (max_time ed3) 1) * 1000)\<rparr>)"
  have ua: "update_animation ed = redraw_scene ?ed3"
    by (simp add: update_animation_def Let_def)
  obtain items where
    "redraw_scene ?ed3 = Done (?ed3\<lparr>scene_items := items,
                                   scene_rect := redraw_rect (roads ?ed3) (scene_rect ?ed3)\<rparr>)"
    using redraw_scene_Done[of ?ed3] by blast
  then show ?thesis
    unfolding ua by (simp add: Let_def)
qed

text \<open>
  C3 (amended): on every tick of the playback timer, \<^verbatim>\<open>update_animation\<close> sets \<^verbatim>\<open>max_time\<close>,
  the value beyond which the current time wraps back to \<open>0\<close>, to the largest arrival time
  of a last waypoint over all vehicles that have at least one waypoint, provided that
  value is positive; otherwise \<^verbatim>\<open>max_time\<close> keeps its previous value (initially \<open>10\<close>).
  Pause durations do not enter, and no lower bound of \<open>1\<close> applies to the wrap-around
  (it is used only as the divisor of the slider position).  The current time advances by
  \<open>0.033\<close> and wraps to \<open>0\<close> when it then exceeds \<^verbatim>\<open>max_time\<close>.
\<close>

theorem update_animation_max_time:
  "\<exists>ed'. update_animation ed = Done ed'
     \<and> max_time ed' =
         (if 0 < Max (insert 0 ((\<lambda>v. tp_time (last (trajectory v)))
                                  ` {v \<in> set (vehicles ed). trajectory v \<noteq> []}))
          then Max (insert 0 ((\<lambda>v. tp_time (last (trajectory v)))
                                  ` {v \<in> set (vehicles ed). trajectory v \<noteq> []}))
          else max_time ed)
     \<and> current_time ed' =
         (if max_time ed' < current_time ed + 33 / 1000 then 0 else current_time ed + 33 / 1000)"
  unfolding compute_max_t_Max[symmetric] by (rule update_animation_Done)

text \<open>
  In \<open>late_pause_editor\<close> the specification's wrap-around time is \<open>5\<close>, yet the tick from
  \<open>2.5\<close> sets \<^verbatim>\<open>max_time\<close> to \<open>2\<close> and wraps the clock to \<open>0\<close>; in \<open>brief_editor\<close> the
  specification's value is the minimum \<open>1\<close>, yet \<^verbatim>\<open>max_time\<close> becomes \<open>0.5\<close>.
\<close>

theorem update_animation_counterexample:
  "spec_max_time (vehicles late_pause_editor) = 5
   \<and> current_time late_pause_editor = 5 / 2
   \<and> max_time (state_of (update_animation late_pause_editor)) = 2
   \<and> current_time (state_of (update_animation late_pause_editor)) = 0
   \<and> spec_max_time (vehicles brief_editor) = 1
   \<and> max_time (state_of (update_animation brief_editor)) = 1 / 2"
proof -
  have late: "compute_max_t (vehicles late_pause_editor) = 2"
    "current_time late_pause_editor = 5 / 2"
    "spec_max_time (vehicles late_pause_editor) = 5"
    by (simp_all add: compute_max_t_def spec_max_time_def late_pause_editor_def blank_editor_def)
  have brief: "compute_max_t (vehicles brief_editor) = 1 / 2"
    "spec_max_time (vehicles brief_editor) = 1"
    by (simp_all add: compute_max_t_def spec_max_time_def brief_editor_def blank_editor_def)
  obtain ed1 where ed1: "update_animation late_pause_editor = Done ed1"
    "max_time ed1 = 2" "current_time ed1 = 0"
    using update_animation_Done[of late_pause_editor] late by auto
  obtain ed2 where ed2: "update_animation brief_editor = Done ed2" "max_time ed2 = 1 / 2"
    using update_animation_Done[of brief_editor] brief by auto
  show ?thesis
    using late brief ed1 ed2 by (simp add: state_of_def)
qed

section \<open>Properties of the video export\<close>













section \<open>Properties of the bounds\<close>


text \<open>
  The scene rectangle that \<^verbatim>\<open>redraw_scene\<close> installs after each edit is a different one:
  it starts at the origin and reaches \<open>200\<close> beyond the rightmost and \<open>100\<close> beyond the
  lowest road edge.
\<close>

lemma two_road_redraw_rect:
  "redraw_rect (roads two_road_editor) r = (0, 0, 2400, 940)"
  by (simp add: redraw_rect_def two_road_editor_def blank_editor_def Let_def)

section \<open>Properties of locked roads\<close>



text \<open>
  For comparison, an unlocked road takes the position where it is released, and a change
  of the left margin translates every road with the rest of the scene, locked or not.
\<close>

lemma unlocked_road_moves:
  assumes "i < length (roads ed)" and "\<not> locked (roads ed ! i)"
  shows "\<exists>ed'. road_mouse_release i pos_x pos_y ed = Done ed'
            \<and> road_x (roads ed' ! i) = pos_x \<and> road_y (roads ed' ! i) = pos_y"
  using assms by (simp add: road_mouse_release_def getitem_def update_status_def)

lemma margin_change_shifts_roads:
  "roads (state_of (on_margin_changed new_value ed))
   = map (\<lambda>road. road\<lparr>road_x := road_x road + real_of_int (new_value - left_margin ed)\<rparr>) (roads ed)"
proof -
  let ?X = "update_status (St_MarginChanged new_value)
              (update_status (St_MarginChanged new_value)
                 (shift_x (real_of_int (new_value - left_margin ed)) (ed\<lparr>left_margin := new_value\<rparr>)))"
  obtain items where
    "redraw_scene ?X = Done (?X\<lparr>scene_items := items,
                                 scene_rect := redraw_rect (roads ?X) (scene_rect ?X)\<rparr>)"
    using redraw_scene_Done[of ?X] by blast
  then show ?thesis
    by (simp add: on_margin_changed_def Let_def state_of_def update_status_def shift_x_def)
qed

section \<open>Properties of project files\<close>

lemma load_project_clears:
  "filename \<noteq> [] \<Longrightarrow>
   ae_vehicles (state_of (load_project filename data ed)) = []
   \<and> ae_cameras (state_of (load_project filename data ed)) = []
   \<and> ae_text_labels (state_of (load_project filename data ed)) = []"
  by (cases "json_get data ''max_time'' (JReal 10)")
     (simp_all add: load_project_def state_of_def Let_def)

text \<open>
  C6 (as the code behaves): the project written by \<^verbatim>\<open>save_project\<close> for an editor with one
  vehicle is read back by \<^verbatim>\<open>load_project\<close> into an editor with no vehicle at all: loading
  clears the collections and reads only \<^verbatim>\<open>max_time\<close>, which this document does not even
  contain.
\<close>

theorem round_trip_loses_vehicles:
  "length (vehicles late_pause_editor) = 1
   \<and> snd (save_project ''p.json'' late_pause_editor) = Some (project_document late_pause_editor)
   \<and> load_project ''p.json'' (project_document late_pause_editor) fresh_assets_editor
       = Done (fresh_assets_editor\<lparr>ae_loaded := [''p.json'']\<rparr>)
   \<and> length (ae_vehicles (state_of (load_project ''p.json'' (project_document late_pause_editor)
                                        fresh_assets_editor))) = 0"
  by (simp add: save_project_def load_project_def json_get_def project_document_def state_of_def
        late_pause_editor_def blank_editor_def fresh_assets_editor_def Let_def)

section \<open>Properties of the identifiers\<close>

lemma id_step_refl: "(\<And>c. ids c ed' = ids c ed) \<Longrightarrow> (\<And>c. counter c ed' = counter c ed) \<Longrightarrow> id_step ed ed'"
  by (simp add: id_step_def)

lemma id_view_update_status [simp]:
  "ids c (update_status m ed) = ids c ed" "counter c (update_status m ed) = counter c ed"
  "ids c (message_box d ed) = ids c ed" "counter c (message_box d ed) = counter c ed"
  by (simp_all add: ids_def counter_def update_status_def message_box_def split: collection.splits)

lemma redraw_scene_ids:
  "\<exists>ed'. redraw_scene ed = Done ed' \<and> (\<forall>c. ids c ed' = ids c ed \<and> counter c ed' = counter c ed)"
proof -
  obtain items where
    "redraw_scene ed = Done (ed\<lparr>scene_items := items, scene_rect := redraw_rect (roads ed) (scene_rect ed)\<rparr>)"
    using redraw_scene_Done[of ed] by blast
  then show ?thesis
    by (simp add: ids_def counter_def split: collection.splits)
qed

lemma fit_view_to_roads_ids:
  "\<exists>ed'. fit_view_to_roads ed = Done ed' \<and> (\<forall>c. ids c ed' = ids c ed \<and> counter c ed' = counter c ed)"
  by (cases "roads ed")
     (simp_all add: fit_view_to_roads_def Let_def ids_def counter_def update_status_def
        split: collection.splits)


lemmas id_simps = ids_def counter_def update_status_def message_box_def

lemma id_step_cong:
  assumes "id_step ed X" and "\<And>c. ids c Y = ids c X" and "\<And>c. counter c Y = counter c X"
  shows "id_step ed Y"
  using assms by (simp add: id_step_def)

lemma id_step_redraw:
  assumes "id_step ed X"
  shows "id_step ed (state_of (redraw_scene X))"
proof -
  obtain Y where "redraw_scene X = Done Y" "\<forall>c. ids c Y = ids c X \<and> counter c Y = counter c X"
    using redraw_scene_ids[of X] by blast
  then show ?thesis using id_step_cong[OF assms, of Y] by (simp add: state_of_def)
qed

lemma id_step_redraw_fit:
  assumes "id_step ed X"
  shows "id_step ed (state_of (and_then (redraw_scene X) fit_view_to_roads))"
proof -
  obtain Y where Y: "redraw_scene X = Done Y" "\<forall>c. ids c Y = ids c X \<and> counter c Y = counter c X"
    using redraw_scene_ids[of X] by blast
  obtain Z where Z: "fit_view_to_roads Y = Done Z" "\<forall>c. ids c Z = ids c Y \<and> counter c Z = counter c Y"
    using fit_view_to_roads_ids[of Y] by blast
  show ?thesis
    using id_step_cong[OF assms, of Z] Y Z by (simp add: state_of_def and_then_def)
qed

lemma remove_at_facts:
  "set (remove_at i xs) \<subseteq> set xs" "length (remove_at i xs) \<le> length xs"
  "map f (remove_at i xs) = remove_at i (map f xs)"
proof -
  show "set (remove_at i xs) \<subseteq> set xs"
    unfolding remove_at_def using set_take_subset[of i xs] set_drop_subset[of "Suc i" xs] by auto
  show "length (remove_at i xs) \<le> length xs"
    by (simp add: remove_at_def)
  show "map f (remove_at i xs) = remove_at i (map f xs)"
    by (simp add: remove_at_def take_map drop_map)
qed

lemma add_road_ids: "id_step ed (state_of (add_road x y ed))"
proof (cases "road_pixmaps ed")
  case Nil
  then show ?thesis by (simp add: add_road_def state_of_def id_step_refl)
next
  case (Cons pm others)
  let ?X = "update_status (St_RoadAdded (next_road_id ed))
              (ed\<lparr>next_road_id := next_road_id ed + 1,
                  roads := roads ed @ [\<lparr>road_id = next_road_id ed, road_pixmap = pm, road_x = x,
                                         road_y = y, locked = False\<rparr>]\<rparr>)"
  have "id_step ed ?X"
    unfolding id_step_def
  proof
    fix c show "ids c ?X = ids c ed @ [counter c ed] \<and> counter c ?X = counter c ed + 1 \<or>
         counter c ?X = counter c ed \<and> set (ids c ?X) \<subseteq> set (ids c ed) \<and> length (ids c ?X) \<le> length (ids c ed)"
      by (cases c) (simp_all add: id_simps)
  qed
  then have "id_step ed (state_of (redraw_scene ?X))" by (rule id_step_redraw)
  then show ?thesis using Cons by (simp add: add_road_def Let_def)
qed


lemma id_stepI:
  assumes "\<And>c. ids c X = ids c ed @ [counter c ed] \<and> counter c X = counter c ed + 1 \<or>
         counter c X = counter c ed \<and> set (ids c X) \<subseteq> set (ids c ed) \<and> length (ids c X) \<le> length (ids c ed)"
  shows "id_step ed X"
  using assms by (simp add: id_step_def)

lemma id_step_same: "id_step ed ed"
  by (simp add: id_step_def)

lemma add_road_interactive_ids: "id_step ed (state_of (add_road_interactive ed))"
proof -
  have fit: "id_step ed (state_of (and_then (add_road x y ed) fit_view_to_roads))" for x y
  proof (cases "add_road x y ed")
    case (Done Y)
    then have Y: "id_step ed Y" using add_road_ids[of ed x y] by (simp add: state_of_def)
    obtain Z where Z: "fit_view_to_roads Y = Done Z"
      "\<forall>c. ids c Z = ids c Y \<and> counter c Z = counter c Y"
      using fit_view_to_roads_ids[of Y] by blast
    show ?thesis using id_step_cong[OF Y, of Z] Done Z by (simp add: state_of_def and_then_def)
  next
    case (Raised e Y)
    then show ?thesis using add_road_ids[of ed x y] by (simp add: state_of_def and_then_def)
  qed
  show ?thesis
    unfolding add_road_interactive_def Let_def by (cases "roads ed = []") (simp_all add: fit)
qed

lemma on_road_selected_ids: "id_step ed (state_of (on_road_selected idx ed))"
  by (auto simp: on_road_selected_def state_of_def id_simps intro!: id_stepI split: collection.splits)

lemma on_vehicle_selected_ids: "id_step ed (state_of (on_vehicle_selected idx ed))"
  by (auto simp: on_vehicle_selected_def state_of_def id_simps intro!: id_stepI split: collection.splits)

lemma map_id_update:
  "i < length xs \<Longrightarrow> f y = f (xs ! i) \<Longrightarrow> map f (xs[i := y]) = map f xs"
  by (simp add: map_update list_update_same_conv)

lemma toggle_lock_road_ids: "id_step ed (state_of (toggle_lock_road checked ed))"
proof (cases "selected_road ed")
  case None
  then show ?thesis by (simp add: toggle_lock_road_def state_of_def id_step_refl)
next
  case (Some i)
  show ?thesis
  proof (cases "i < length (roads ed)")
    case True
    have "map road_id ((roads ed)[i := (roads ed ! i)\<lparr>locked := checked\<rparr>]) = map road_id (roads ed)"
      using True by (intro map_id_update) simp_all
    then show ?thesis
      using Some True
      by (auto simp: toggle_lock_road_def getitem_def state_of_def id_simps intro!: id_stepI
               split: collection.splits)
  next
    case False
    then show ?thesis using Some
      by (simp add: toggle_lock_road_def getitem_def state_of_def id_step_same)
  qed
qed

lemma road_mouse_release_ids: "id_step ed (state_of (road_mouse_release i pos_x pos_y ed))"
proof (cases "i < length (roads ed)")
  case True
  have "map road_id ((roads ed)[i := (roads ed ! i)\<lparr>road_x := pos_x, road_y := pos_y\<rparr>])
        = map road_id (roads ed)"
    using True by (intro map_id_update) simp_all
  then show ?thesis
    using True
    by (auto simp: road_mouse_release_def getitem_def state_of_def id_simps intro!: id_stepI
             split: collection.splits)
next
  case False
  then show ?thesis
    by (simp add: road_mouse_release_def getitem_def state_of_def id_step_same)
qed

lemma remove_road_ids: "id_step ed (state_of (remove_road reply_yes ed))"
proof (cases "selected_road ed")
  case None
  then show ?thesis by (simp add: remove_road_def state_of_def id_step_refl)
next
  case (Some i)
  let ?X = "update_status St_RoadRemoved (ed\<lparr>roads := remove_at i (roads ed), selected_road := None\<rparr>)"
  have "id_step ed ?X"
    by (rule id_stepI) (auto simp: id_simps remove_at_facts(2) split: collection.splits
          dest: subsetD[OF remove_at_facts(1)])
  then have "id_step ed (state_of (and_then (redraw_scene ?X) fit_view_to_roads))"
    by (rule id_step_redraw_fit)
  then show ?thesis
    using Some
    by (auto simp: remove_road_def getitem_def state_of_def id_step_same id_step_refl
             split: if_splits)
qed

lemma add_vehicle_to_scene_ids: "id_step ed (state_of (add_vehicle_to_scene selected ed))"
proof (cases selected)
  case None
  then show ?thesis by (simp add: add_vehicle_to_scene_def state_of_def id_step_refl)
next
  case (Some name)
  show ?thesis
  proof (cases "map_of (vehicle_pixmaps ed) name")
    case None
    then show ?thesis using Some by (simp add: add_vehicle_to_scene_def state_of_def id_step_same)
  next
    case (Some pm)
    let ?X = "update_status (St_VehicleAdded name (next_vehicle_id ed))
                (ed\<lparr>next_vehicle_id := next_vehicle_id ed + 1,
                    vehicles := vehicles ed @ [\<lparr>vehicle_id = next_vehicle_id ed, vehicle_pixmap = pm,
                       vehicle_name = name, vehicle_scale = 0.5, trajectory = []\<rparr>]\<rparr>)"
    have "id_step ed ?X"
      by (rule id_stepI) (simp add: id_simps split: collection.splits)
    then have "id_step ed (state_of (redraw_scene ?X))" by (rule id_step_redraw)
    then show ?thesis
      using Some \<open>selected = Some name\<close> by (simp add: add_vehicle_to_scene_def Let_def)
  qed
qed

lemma remove_vehicle_ids: "id_step ed (state_of (remove_vehicle reply_yes ed))"
proof (cases "selected_vehicle ed")
  case None
  then show ?thesis by (simp add: remove_vehicle_def state_of_def id_step_refl)
next
  case (Some i)
  let ?X = "update_status St_VehicleRemoved
              (ed\<lparr>vehicles := remove_at i (vehicles ed), selected_vehicle := None\<rparr>)"
  have "id_step ed ?X"
    by (rule id_stepI) (auto simp: id_simps remove_at_facts(2) split: collection.splits
          dest: subsetD[OF remove_at_facts(1)])
  then have "id_step ed (state_of (redraw_scene ?X))" by (rule id_step_redraw)
  then show ?thesis
    using Some
    by (auto simp: remove_vehicle_def getitem_def state_of_def id_step_same split: if_splits)
qed

lemma add_camera_to_scene_ids: "id_step ed (state_of (add_camera_to_scene ed))"
proof (cases "camera_pixmaps ed")
  case Nil
  then show ?thesis by (simp add: add_camera_to_scene_def state_of_def id_step_refl)
next
  case (Cons pm others)
  let ?X = "update_status (St_CameraAdded (next_camera_id ed))
              (ed\<lparr>next_camera_id := next_camera_id ed + 1,
                  cameras := cameras ed @ [\<lparr>camera_id = next_camera_id ed, camera_pixmap = pm,
                     camera_x = 200 + real_of_int (next_camera_id ed) * 50, camera_y = 100,
                     camera_scale = 1.0\<rparr>]\<rparr>)"
  have "id_step ed ?X"
    by (rule id_stepI) (simp add: id_simps split: collection.splits)
  then have "id_step ed (state_of (redraw_scene ?X))" by (rule id_step_redraw)
  then show ?thesis using Cons by (simp add: add_camera_to_scene_def Let_def)
qed

lemma remove_camera_ids: "id_step ed (state_of (remove_camera selected_row reply_yes ed))"
proof (cases selected_row)
  case None
  then show ?thesis by (simp add: remove_camera_def state_of_def id_step_refl)
next
  case (Some idx)
  let ?X = "update_status St_CameraRemoved (ed\<lparr>cameras := remove_at idx (cameras ed)\<rparr>)"
  have "id_step ed ?X"
    by (rule id_stepI) (auto simp: id_simps remove_at_facts(2) split: collection.splits
          dest: subsetD[OF remove_at_facts(1)])
  then have "id_step ed (state_of (redraw_scene ?X))" by (rule id_step_redraw)
  then show ?thesis
    using Some
    by (auto simp: remove_camera_def getitem_def state_of_def id_step_same split: if_splits)
qed

lemma on_margin_changed_ids: "id_step ed (state_of (on_margin_changed new_value ed))"
proof -
  let ?X = "update_status (St_MarginChanged new_value)
              (update_status (St_MarginChanged new_value)
                 (shift_x (real_of_int (new_value - left_margin ed)) (ed\<lparr>left_margin := new_value\<rparr>)))"
  have "id_step ed ?X"
    by (rule id_stepI) (simp add: id_simps shift_x_def comp_def split: collection.splits)
  then have "id_step ed (state_of (redraw_scene ?X))" by (rule id_step_redraw)
  then show ?thesis by (simp add: on_margin_changed_def Let_def)
qed

lemma toggle_play_ids: "id_step ed (state_of (toggle_play ed))"
proof -
  let ?X = "if is_playing ed then ed\<lparr>is_playing := False, show_trajectory := True\<rparr>
        else ed\<lparr>is_playing := True, show_trajectory := False\<rparr>"
  have "id_step ed ?X"
    by (rule id_stepI) (simp add: id_simps split: collection.splits)
  then have "id_step ed (state_of (redraw_scene ?X))" by (rule id_step_redraw)
  then show ?thesis by (simp add: toggle_play_def)
qed

lemma update_animation_ids: "id_step ed (state_of (update_animation ed))"
proof -
  let ?X = "(let ed1 = ed\<lparr>current_time := current_time ed + 33 / 1000\<rparr>;
          max_t = compute_max_t (vehicles ed1);
          ed2 = (if max_t > 0 then ed1\<lparr>max_time := max_t\<rparr> else ed1);
          ed3 = (if current_time ed2 > max_time ed2 then ed2\<lparr>current_time := 0\<rparr> else ed2)
      in ed3\<lparr>time_slider := py_int ((current_time ed3 / max (max_time ed3) 1) * 1000)\<rparr>)"
  have "id_step ed ?X"
    by (rule id_stepI) (simp add: id_simps Let_def split: collection.splits)
  then have "id_step ed (state_of (redraw_scene ?X))" by (rule id_step_redraw)
  then show ?thesis by (simp add: update_animation_def Let_def)
qed

lemma fit_view_to_roads_step: "id_step ed (state_of (fit_view_to_roads ed))"
proof -
  obtain Z where "fit_view_to_roads ed = Done Z" "\<forall>c. ids c Z = ids c ed \<and> counter c Z = counter c ed"
    using fit_view_to_roads_ids[of ed] by blast
  then show ?thesis by (simp add: state_of_def id_step_refl)
qed

lemma step_ids: "id_step ed (state_of (step operation ed))"
  by (cases operation)
     (simp_all add: add_road_interactive_ids on_road_selected_ids toggle_lock_road_ids
        remove_road_ids road_mouse_release_ids add_vehicle_to_scene_ids on_vehicle_selected_ids
        remove_vehicle_ids add_camera_to_scene_ids remove_camera_ids on_margin_changed_ids
        toggle_play_ids update_animation_ids fit_view_to_roads_step)


lemma created_conv:
  "created ed ed' = map (Pair Vehicles) (fresh_ids Vehicles ed ed')
                    @ map (Pair Cameras) (fresh_ids Cameras ed ed')
                    @ map (Pair Roads) (fresh_ids Roads ed ed')"
  by (simp add: created_def fresh_ids_def ids_def drop_map)

lemma fresh_ids_cases:
  assumes "id_step ed ed'"
  shows "(fresh_ids c ed ed' = [counter c ed] \<and> counter c ed' = counter c ed + 1)
         \<or> (fresh_ids c ed ed' = [] \<and> counter c ed' = counter c ed)"
proof -
  from assms have
    "(ids c ed' = ids c ed @ [counter c ed] \<and> counter c ed' = counter c ed + 1)
     \<or> (counter c ed' = counter c ed \<and> set (ids c ed') \<subseteq> set (ids c ed)
              \<and> length (ids c ed') \<le> length (ids c ed))"
    by (simp add: id_step_def)
  then show ?thesis by (auto simp: fresh_ids_def)
qed

lemma set_created:
  "(c, k) \<in> set (created ed ed') \<longleftrightarrow> k \<in> set (fresh_ids c ed ed')"
  by (cases c) (auto simp: created_conv)

lemma id_step_created_bounds:
  assumes "id_step ed ed'" and "(c, k) \<in> set (created ed ed')"
  shows "counter c ed \<le> k \<and> k < counter c ed'"
  using fresh_ids_cases[OF assms(1), of c] assms(2) by (auto simp: set_created)

lemma id_step_counter_mono:
  assumes "id_step ed ed'"
  shows "counter c ed \<le> counter c ed'"
  using fresh_ids_cases[OF assms, of c] by auto

lemma id_step_distinct_created:
  assumes "id_step ed ed'"
  shows "distinct (created ed ed')"
proof -
  have "distinct (fresh_ids c ed ed')" for c
    using fresh_ids_cases[OF assms, of c] by auto
  then show ?thesis
    by (auto simp: created_conv distinct_map inj_on_def)
qed

lemma ids_created_fresh:
  "distinct (ids_created ops ed) \<and> (\<forall>c k. (c, k) \<in> set (ids_created ops ed) \<longrightarrow> counter c ed \<le> k)"
proof (induction ops arbitrary: ed)
  case Nil
  then show ?case by simp
next
  case (Cons operation rest)
  let ?ed' = "state_of (step operation ed)"
  have st: "id_step ed ?ed'" by (rule step_ids)
  have new: "distinct (created ed ?ed')" using st by (rule id_step_distinct_created)
  have bounds: "counter c ed \<le> k \<and> k < counter c ?ed'" if "(c, k) \<in> set (created ed ?ed')" for c k
    using id_step_created_bounds[OF st that] .
  show ?case
  proof (cases "step operation ed")
    case (Done ed')
    then have ed': "?ed' = ed'" by (simp add: state_of_def)
    have later: "counter c ed' \<le> k" if "(c, k) \<in> set (ids_created rest ed')" for c k
      using Cons.IH[of ed'] that by blast
    have "set (created ed ed') \<inter> set (ids_created rest ed') = {}"
    proof (rule ccontr)
      assume "set (created ed ed') \<inter> set (ids_created rest ed') \<noteq> {}"
      then obtain c k where "(c, k) \<in> set (created ed ed')" "(c, k) \<in> set (ids_created rest ed')"
        by auto
      then have "k < counter c ed'" "counter c ed' \<le> k"
        using bounds[of c k] later[of c k] ed' by simp_all
      then show False by simp
    qed
    moreover have "distinct (ids_created rest ed')" using Cons.IH[of ed'] by blast
    moreover have "counter c ed \<le> k" if "(c, k) \<in> set (created ed ed') \<union> set (ids_created rest ed')" for c k
      using that bounds[of c k] later[of c k] id_step_counter_mono[OF st, of c] ed' by auto
    ultimately show ?thesis using Done new ed' by auto
  next
    case (Raised e ed')
    then have ed': "?ed' = ed'" by (simp add: state_of_def)
    show ?thesis using Raised new bounds ed' by auto
  qed
qed

lemma editor_init_step:
  "id_step (blank_editor vp cp rp) (state_of (editor_init vp cp rp))"
proof (cases "road_pixmaps (blank_editor vp cp rp) = []")
  case True
  then show ?thesis by (simp add: editor_init_def Let_def state_of_def id_step_same)
next
  case False
  then show ?thesis by (simp add: editor_init_def Let_def add_road_ids)
qed

text \<open>
  In \<^verbatim>\<open>vehicle_editor_fixed.py\<close> the identifiers given out during a session, from the
  start of the editor on and whatever the operator does, are pairwise distinct within each
  collection: every new entity takes the value of a counter that only grows.
\<close>

lemma ids_never_reused:
  "distinct (created (blank_editor vp cp rp) (state_of (editor_init vp cp rp))
             @ ids_created ops (state_of (editor_init vp cp rp)))"
proof -
  let ?b = "blank_editor vp cp rp"
  let ?e = "state_of (editor_init vp cp rp)"
  have st: "id_step ?b ?e" by (rule editor_init_step)
  have "distinct (created ?b ?e)" using st by (rule id_step_distinct_created)
  moreover have "distinct (ids_created ops ?e)" using ids_created_fresh[of ops ?e] by blast
  moreover have "set (created ?b ?e) \<inter> set (ids_created ops ?e) = {}"
  proof (rule ccontr)
    assume "set (created ?b ?e) \<inter> set (ids_created ops ?e) \<noteq> {}"
    then obtain c k where "(c, k) \<in> set (created ?b ?e)" "(c, k) \<in> set (ids_created ops ?e)"
      by auto
    then have "k < counter c ?e" "counter c ?e \<le> k"
      using id_step_created_bounds[OF st, of c k] ids_created_fresh[of ops ?e] by blast+
    then show False by simp
  qed
  ultimately show ?thesis by simp
qed

text \<open>
  C8 (as the code behaves in \<^verbatim>\<open>vehicle_editor_v3.py\<close>): there a new vehicle takes the
  current length of the vehicle list as its identifier.  After adding two vehicles,
  removing the first and adding a third, the two vehicles in the scene both carry the
  identifier \<open>1\<close>.
\<close>

theorem v3_reuses_vehicle_id:
  "map vehicle_id (v3_vehicles v3_session) = [1, 1]"
  by (simp add: v3_session_def v3_blank_def v3_add_vehicle_to_scene_def v3_remove_vehicle_def
        v3_on_vehicle_selected_def state_of_def getitem_def remove_at_def)

end
